theory Spec2Isabelle
  imports Main
begin

section \<open>JavaScript strings\<close>

text \<open>
  A JavaScript string is a sequence of UTF-16 code units.  The model uses \<^typ>\<open>string\<close>:
  one \<^typ>\<open>char\<close> stands for one code unit below 256, and \<^const>\<open>length\<close> is the
  \<^verbatim>\<open>.length\<close> of the source.  Of the code points that \<^verbatim>\<open>String.prototype.trim\<close>
  and \<^verbatim>\<open>parseInt\<close> skip as white space, those below 256 are TAB, LF, VT, FF, CR, SPACE
  and NO-BREAK SPACE.
\<close>

definition isWhiteSpace :: "char \<Rightarrow> bool" where
  "isWhiteSpace c =
     (c \<in> set [CHR 0x09, CHR 0x0A, CHR 0x0B, CHR 0x0C, CHR 0x0D, CHR 0x20, CHR 0xA0])"

definition trimStart :: "string \<Rightarrow> string" where
  "trimStart s = dropWhile isWhiteSpace s"

definition trim :: "string \<Rightarrow> string" where
  "trim s = rev (dropWhile isWhiteSpace (rev (dropWhile isWhiteSpace s)))"

definition startsWith :: "string \<Rightarrow> string \<Rightarrow> bool" where
  "startsWith s p = (take (length p) s = p)"

definition endsWith :: "string \<Rightarrow> string \<Rightarrow> bool" where
  "endsWith s p = (length p \<le> length s \<and> drop (length s - length p) s = p)"

text \<open>\<^verbatim>\<open>s.includes(p)\<close>: \<open>p\<close> occurs in \<open>s\<close> as a contiguous substring
  (\<open>includes\<close> is a keyword of Isabelle, hence the suffix).\<close>

fun includesStr :: "string \<Rightarrow> string \<Rightarrow> bool" where
  "includesStr [] p = (p = [])"
| "includesStr (c # cs) p = (startsWith (c # cs) p \<or> includesStr cs p)"

text \<open>\<^verbatim>\<open>xs.join(sep)\<close> on an array of strings.\<close>

fun join :: "string \<Rightarrow> string list \<Rightarrow> string" where
  "join sep [] = []"
| "join sep [x] = x"
| "join sep (x # y # ys) = x @ sep @ join sep (y # ys)"

section \<open>URL Normalizer\<close>

text \<open>
  The first statements of \<^verbatim>\<open>scrapeWebsite\<close> (src/main.js, lines 81 to 87):
  \<^verbatim>\<open>url.trim()\<close>, then \<^verbatim>\<open>slice(0, -1)\<close> when the string ends with a slash (this is
  \<^const>\<open>butlast\<close>), then the scheme test, which is case sensitive.
\<close>

definition normalizeUrl :: "string \<Rightarrow> string" where
  "normalizeUrl url =
     (let trimmed = trim url;
          stripped = (if endsWith trimmed ''/'' then butlast trimmed else trimmed)
      in if \<not> startsWith stripped ''http://'' \<and> \<not> startsWith stripped ''https://''
         then ''https://'' @ stripped
         else stripped)"

section \<open>Values, errors and the collaborators\<close>

text \<open>
  A value thrown in the source is an \<^verbatim>\<open>Error\<close> object; the code reads only its
  \<^verbatim>\<open>message\<close>, which is a string or \<^verbatim>\<open>undefined\<close> (\<open>None\<close>); the source guards for
  the latter with \<^verbatim>\<open>error.message?.includes\<close>.  A JavaScript function that may throw (an
  async function that may reject) returns \<open>js_error + 'a\<close>, with \<open>Inl\<close> the thrown
  error.
\<close>

datatype js_error = JsError "string option"

text \<open>Interpolation of \<^verbatim>\<open>error.message\<close> into a template literal.\<close>

fun messageText :: "js_error \<Rightarrow> string" where
  "messageText (JsError None) = ''undefined''"
| "messageText (JsError (Some m)) = m"

text \<open>\<^verbatim>\<open>error.message?.includes(p)\<close>: \<^verbatim>\<open>undefined\<close>, hence falsy, without a message.\<close>

fun messageIncludes :: "js_error \<Rightarrow> string \<Rightarrow> bool" where
  "messageIncludes (JsError None) p = False"
| "messageIncludes (JsError (Some m)) p = includesStr m p"

text \<open>
  What \<^verbatim>\<open>JSON.parse\<close> returns.  JavaScript numbers are doubles.  \<open>JNum n\<close> is the
  integer \<open>n\<close>; the model computes with it when its magnitude is at most \<open>2 ^ 53\<close>, where
  doubles hold every integer exactly.  \<open>JNumOther\<close> is any other number that
  \<^verbatim>\<open>JSON.parse\<close> can return (one with a fraction, or one the parser rounded to an
  infinity); none of them is 0, so all are truthy.  An object lists each key once.
\<close>

datatype jsvalue =
    JUndefined
  | JNull
  | JBool bool
  | JNum int
  | JNumOther
  | JStr string
  | JArr "jsvalue list"
  | JObj "(string \<times> jsvalue) list"

text \<open>
  A number computed by the code: \<^verbatim>\<open>NaN\<close>, an integer of magnitude at most \<open>2 ^ 53\<close>,
  or \<open>Untracked\<close>: some number that the model does not determine (a double beyond the
  exact integers, an infinity, or the outcome of printing or parsing one), about which
  nothing is stated.
\<close>

datatype js_number = NaN | Num int | Untracked

definition maxExact :: int where
  "maxExact = 2 ^ 53"

fun truthy :: "jsvalue \<Rightarrow> bool" where
  "truthy JUndefined = False"
| "truthy JNull = False"
| "truthy (JBool b) = b"
| "truthy (JNum n) = (n \<noteq> 0)"
| "truthy JNumOther = True"
| "truthy (JStr s) = (s \<noteq> [])"
| "truthy (JArr xs) = True"
| "truthy (JObj fs) = True"

text \<open>
  The response of \<^verbatim>\<open>openai.chat.completions.create\<close>, as far as
  \<^verbatim>\<open>completion.choices[0]?.message?.content\<close> reads it.  Behind \<^verbatim>\<open>?.\<close> the two missing
  values behave alike and \<open>None\<close> is either of them; \<^verbatim>\<open>choices\<close> is indexed without
  \<^verbatim>\<open>?.\<close>, and the error then names the one it was.
\<close>

datatype nullish = IsUndefined | IsNull

datatype chat_message = ChatMessage "string option"
datatype chat_choice = ChatChoice "chat_message option"
datatype chat_completion = ChatCompletion "nullish + chat_choice list"

text \<open>What \<^verbatim>\<open>page.evaluate\<close> returns in \<^verbatim>\<open>scrapeWebsite\<close>.\<close>

record page_content =
  pc_title :: string
  pc_metaDescription :: string
  pc_h1 :: string
  pc_headings :: string
  pc_bodyText :: string
  pc_heroText :: string

text \<open>
  The \<^verbatim>\<open>try\<close> block of \<^verbatim>\<open>scrapeWebsite\<close> up to the end of \<^verbatim>\<open>page.evaluate\<close> either throws
  (browser launch, new page, headers, navigation, time-out, evaluation) or delivers the
  extracted fields.
\<close>

datatype page_outcome = PageThrows js_error | PageContent page_content

record ScrapeResult =
  sr_url :: string
  sr_content :: string
  sr_title :: string
  sr_success :: bool
  sr_error :: "string option"

text \<open>
  \<^verbatim>\<open>verdict\<close> and \<^verbatim>\<open>reason\<close> are whatever truthy value the response carries
  (\<^verbatim>\<open>result.verdict || 'DISQUALIFY'\<close>), so they are values, not strings.
\<close>

record ClassificationResult =
  cr_url :: string
  cr_verdict :: jsvalue
  cr_score :: js_number
  cr_reason :: jsvalue

record RunSummary =
  rs_total :: nat
  rs_qualified :: nat
  rs_disqualified :: nat
  rs_results :: "ClassificationResult list"

text \<open>
  The collaborators.  The browser and the classification service answer by the number of
  the call (counted from 0) and its arguments, which covers every sequence of answers a
  run can meet; \<^verbatim>\<open>JSON.parse\<close> is a function of its text, \<open>Inl\<close> carrying the
  message of its \<^verbatim>\<open>SyntaxError\<close>.  The logger, the record store, \<^verbatim>\<open>page.close\<close> and
  \<^verbatim>\<open>browser.close\<close> are taken to succeed; logging is not part of the state.
\<close>

record env =
  browse :: "nat \<Rightarrow> string \<Rightarrow> page_outcome"
  createCompletion :: "nat \<Rightarrow> string \<Rightarrow> string \<Rightarrow> js_error + chat_completion"
  jsonParse :: "string \<Rightarrow> string + jsvalue"

text \<open>
  The state a run changes: how many times \<^verbatim>\<open>scrapeWebsite\<close> turned to the browser for a
  page, how many times the classification service was called, every \<^verbatim>\<open>setTimeout\<close> delay waited for (in
  milliseconds, in order), and the records appended to the dataset.
\<close>

record world =
  pagesOpened :: nat
  modelCalls :: nat
  waits :: "int list"
  dataset :: "ClassificationResult list"

definition sleep :: "int \<Rightarrow> world \<Rightarrow> world" where
  "sleep ms w = w\<lparr>waits := waits w @ [ms]\<rparr>"

definition pushData :: "ClassificationResult \<Rightarrow> world \<Rightarrow> world" where
  "pushData r w = w\<lparr>dataset := dataset w @ [r]\<rparr>"

section \<open>Retry Executor\<close>

definition isRateLimit :: "js_error \<Rightarrow> bool" where
  "isRateLimit e = (messageIncludes e ''rate_limit'' \<or> messageIncludes e ''429'')"

definition isServerError :: "js_error \<Rightarrow> bool" where
  "isServerError e = (messageIncludes e ''500'' \<or> messageIncludes e ''503'')"

text \<open>
  The \<^verbatim>\<open>for\<close> loop of \<^verbatim>\<open>withRetry\<close> (lines 190 to 205) from \<open>attempt\<close> on.  Falling
  out of the loop returns \<^verbatim>\<open>undefined\<close>, which is \<open>Inr None\<close>.  The loop starts at
  attempt 1, so the exponent \<open>attempt - 1\<close> of \<^verbatim>\<open>Math.pow\<close> is never negative.
\<close>

function withRetry_from ::
  "(world \<Rightarrow> (js_error + 'a) \<times> world) \<Rightarrow> int \<Rightarrow> int \<Rightarrow> int \<Rightarrow> world
     \<Rightarrow> (js_error + 'a option) \<times> world" where
  "withRetry_from fn maxRetries baseDelay attempt w =
     (if attempt \<le> maxRetries then
        (case fn w of
           (Inr v, w') \<Rightarrow> (Inr (Some v), w')
         | (Inl error, w') \<Rightarrow>
             if attempt = maxRetries \<or> (\<not> isRateLimit error \<and> \<not> isServerError error)
             then (Inl error, w')
             else withRetry_from fn maxRetries baseDelay (attempt + 1)
                    (sleep (baseDelay * 2 ^ nat (attempt - 1)) w'))
      else (Inr None, w))"
  by pat_completeness auto
termination
  by (relation "measure (\<lambda>(fn, maxRetries, baseDelay, attempt, w). nat (maxRetries + 1 - attempt))")
     auto

definition withRetry ::
  "(world \<Rightarrow> (js_error + 'a) \<times> world) \<Rightarrow> int \<Rightarrow> int \<Rightarrow> world
     \<Rightarrow> (js_error + 'a option) \<times> world" where
  "withRetry fn maxRetries baseDelay w = withRetry_from fn maxRetries baseDelay 1 w"

section \<open>Content Extractor\<close>

text \<open>
  \<^verbatim>\<open>scrapeWebsite\<close> (lines 80 to 186).  \<^verbatim>\<open>.filter(Boolean)\<close> drops the empty strings.
  The \<^verbatim>\<open>catch\<close> branch returns the URL as given, the other two the normalised one.
\<close>

definition newline :: string where
  "newline = [CHR 0x0A]"

definition scrapeWebsite :: "env \<Rightarrow> string \<Rightarrow> world \<Rightarrow> (js_error + ScrapeResult) \<times> world" where
  "scrapeWebsite env url w =
     (let normalizedUrl = normalizeUrl url;
          w' = w\<lparr>pagesOpened := Suc (pagesOpened w)\<rparr>
      in case browse env (pagesOpened w) normalizedUrl of
           PageContent content \<Rightarrow>
             (let scrapedContent =
                    join (newline @ newline)
                      (filter (\<lambda>t. t \<noteq> [])
                         [pc_title content, pc_metaDescription content, pc_h1 content,
                          pc_headings content, pc_heroText content, pc_bodyText content])
              in if length scrapedContent < 50
                 then (Inr \<lparr>sr_url = normalizedUrl, sr_content = [], sr_title = [],
                            sr_success = False,
                            sr_error = Some ''Insufficient content scraped - page may be empty or blocked''\<rparr>,
                       w')
                 else (Inr \<lparr>sr_url = normalizedUrl, sr_content = scrapedContent,
                            sr_title = pc_title content, sr_success = True,
                            sr_error = None\<rparr>,
                       w'))
         | PageThrows error \<Rightarrow>
             (Inr \<lparr>sr_url = url, sr_content = [], sr_title = [], sr_success = False,
                   sr_error = Some (''Scraping failed: '' @ messageText error)\<rparr>,
              w'))"

section \<open>Classifier\<close>

subsection \<open>\<^verbatim>\<open>parseInt\<close>\<close>

definition digitChar :: "nat \<Rightarrow> char" where
  "digitChar d = char_of (48 + d)"

fun digitsOf :: "nat \<Rightarrow> string" where
  "digitsOf n = (if n < 10 then [digitChar n] else digitsOf (n div 10) @ [digitChar (n mod 10)])"

text \<open>
  \<^verbatim>\<open>Number::toString\<close> on an integer: plain decimal digits up to \<open>2 ^ 53\<close>.  Beyond
  that the digits are those of the nearest double, and from \<open>10 ^ 21\<close> on the notation
  is exponential; the model does not compute them (\<open>None\<close>).
\<close>

definition numberToString :: "int \<Rightarrow> string option" where
  "numberToString n =
     (if \<bar>n\<bar> \<le> maxExact
      then Some (if n < 0 then CHR ''-'' # digitsOf (nat (- n)) else digitsOf (nat n))
      else None)"

text \<open>
  The strings of the elements of an array, converted from left to right: the first
  conversion that throws ends it, and one string that the model does not compute leaves
  the whole unknown.
\<close>

fun collect :: "(js_error + string option) list \<Rightarrow> js_error + string list option" where
  "collect [] = Inr (Some [])"
| "collect (Inl e # rest) = Inl e"
| "collect (Inr s # rest) =
     (case collect rest of
        Inl e \<Rightarrow> Inl e
      | Inr ss \<Rightarrow>
          Inr (case s of
                 None \<Rightarrow> None
               | Some x \<Rightarrow> (case ss of None \<Rightarrow> None | Some xs \<Rightarrow> Some (x # xs))))"

text \<open>
  \<^verbatim>\<open>ToString\<close>, which \<^verbatim>\<open>parseInt\<close> applies to its argument first; \<open>Inr None\<close> is a
  string that the model does not compute.  An array joins its elements with commas,
  \<^verbatim>\<open>null\<close> and \<^verbatim>\<open>undefined\<close> elements printing as nothing.  A parsed object prints through
  \<^verbatim>\<open>Object.prototype.toString\<close>, unless it has a key \<^verbatim>\<open>toString\<close> of its own: the value
  under it is no function, neither is what \<^verbatim>\<open>valueOf\<close> delivers a primitive, and the
  conversion throws a \<^verbatim>\<open>TypeError\<close>.
\<close>

fun toString :: "jsvalue \<Rightarrow> js_error + string option" where
  "toString JUndefined = Inr (Some ''undefined'')"
| "toString JNull = Inr (Some ''null'')"
| "toString (JBool b) = Inr (Some (if b then ''true'' else ''false''))"
| "toString (JNum n) = Inr (numberToString n)"
| "toString JNumOther = Inr None"
| "toString (JStr s) = Inr (Some s)"
| "toString (JArr xs) =
     (case collect (map (\<lambda>v. if v = JUndefined \<or> v = JNull then Inr (Some [])
                              else toString v) xs) of
        Inl e \<Rightarrow> Inl e
      | Inr None \<Rightarrow> Inr None
      | Inr (Some ss) \<Rightarrow> Inr (Some (join '','' ss)))"
| "toString (JObj fs) =
     (if map_of fs ''toString'' \<noteq> None
      then Inl (JsError (Some ''Cannot convert object to primitive value''))
      else Inr (Some ''[object Object]''))"

text \<open>The value of a digit in radixes up to 36; 36 for every other character.\<close>

definition digitVal :: "char \<Rightarrow> nat" where
  "digitVal c =
     (let k = (of_char c :: nat)
      in if 48 \<le> k \<and> k \<le> 57 then k - 48
         else if 97 \<le> k \<and> k \<le> 122 then k - 87
         else if 65 \<le> k \<and> k \<le> 90 then k - 55
         else 36)"

text \<open>
  \<^verbatim>\<open>parseInt(string)\<close> with no radix: leading white space, an optional sign, radix 16
  after \<^verbatim>\<open>0x\<close> or \<^verbatim>\<open>0X\<close> and 10 otherwise, then the longest run of digits.  No digit
  gives \<^verbatim>\<open>NaN\<close>.  The result is the double nearest to the integer that the digits
  denote: that integer itself up to \<open>2 ^ 53\<close>, and a number the model does not compute
  beyond.
\<close>

definition parseIntStr :: "string \<Rightarrow> js_number" where
  "parseIntStr s =
     (let t = trimStart s;
          negative = (t \<noteq> [] \<and> hd t = CHR ''-'');
          t1 = (if t \<noteq> [] \<and> (hd t = CHR ''-'' \<or> hd t = CHR ''+'') then tl t else t);
          hex = (startsWith t1 ''0x'' \<or> startsWith t1 ''0X'');
          R = (if hex then 16 else 10);
          t2 = (if hex then drop 2 t1 else t1);
          ds = takeWhile (\<lambda>c. digitVal c < R) t2;
          n = int (foldl (\<lambda>acc c. acc * R + digitVal c) 0 ds)
      in if ds = [] then NaN
         else if n \<le> maxExact then Num (if negative then - n else n)
         else Untracked)"

text \<open>\<^verbatim>\<open>parseInt(value)\<close>: it throws when the conversion to a string does.\<close>

definition parseInt :: "jsvalue \<Rightarrow> js_error + js_number" where
  "parseInt v =
     (case toString v of
        Inl e \<Rightarrow> Inl e
      | Inr None \<Rightarrow> Inr Untracked
      | Inr (Some s) \<Rightarrow> Inr (parseIntStr s))"

text \<open>
  \<^verbatim>\<open>parseInt(x) || 0\<close>: \<^verbatim>\<open>NaN\<close> and 0 are falsy.  Of a number that the model does not
  determine it does not determine this either.
\<close>

definition orZero :: "js_number \<Rightarrow> js_number" where
  "orZero r = (case r of NaN \<Rightarrow> Num 0 | Num n \<Rightarrow> (if n = 0 then Num 0 else Num n)
               | Untracked \<Rightarrow> Untracked)"

subsection \<open>Reading the response\<close>

definition quoted :: "string \<Rightarrow> string" where
  "quoted s = [CHR 0x27] @ s @ [CHR 0x27]"

text \<open>The \<^verbatim>\<open>TypeError\<close> of a property read on \<^verbatim>\<open>undefined\<close> or \<^verbatim>\<open>null\<close>, worded as Node does.\<close>

definition cannotRead :: "string \<Rightarrow> string \<Rightarrow> js_error" where
  "cannotRead base prop =
     JsError (Some (''Cannot read properties of '' @ base @ '' (reading '' @ quoted prop @ '')''))"

text \<open>
  \<^verbatim>\<open>result.prop\<close> for \<open>prop\<close> one of \<^verbatim>\<open>verdict\<close>, \<^verbatim>\<open>score\<close>, \<^verbatim>\<open>reason\<close>: it throws
  on \<^verbatim>\<open>null\<close> and \<^verbatim>\<open>undefined\<close>, and is \<^verbatim>\<open>undefined\<close> on a value that is no object or has no
  such key.
\<close>

fun getProp :: "jsvalue \<Rightarrow> string \<Rightarrow> js_error + jsvalue" where
  "getProp JUndefined prop = Inl (cannotRead ''undefined'' prop)"
| "getProp JNull prop = Inl (cannotRead ''null'' prop)"
| "getProp (JObj fs) prop = Inr (case map_of fs prop of None \<Rightarrow> JUndefined | Some v \<Rightarrow> v)"
| "getProp v prop = Inr JUndefined"

text \<open>\<^verbatim>\<open>completion.choices[0]?.message?.content\<close>, \<open>completion\<close> being what \<^verbatim>\<open>withRetry\<close> returned.\<close>

fun responseTextOf :: "chat_completion option \<Rightarrow> js_error + string option" where
  "responseTextOf None = Inl (cannotRead ''undefined'' ''choices'')"
| "responseTextOf (Some (ChatCompletion (Inl IsUndefined))) = Inl (cannotRead ''undefined'' ''0'')"
| "responseTextOf (Some (ChatCompletion (Inl IsNull))) = Inl (cannotRead ''null'' ''0'')"
| "responseTextOf (Some (ChatCompletion (Inr []))) = Inr None"
| "responseTextOf (Some (ChatCompletion (Inr (ChatChoice None # cs)))) = Inr None"
| "responseTextOf (Some (ChatCompletion (Inr (ChatChoice (Some (ChatMessage content)) # cs)))) =
     Inr content"

text \<open>
  \<^verbatim>\<open>responseText.match(/\{[\s\S]*\}/)\<close>: the pattern is greedy, so the match runs from the
  first opening brace to the last closing brace after it.
\<close>

definition braceMatch :: "string \<Rightarrow> string option" where
  "braceMatch s =
     (let t = dropWhile (\<lambda>c. c \<noteq> CHR ''{'') s
      in if t = [] then None
         else (let body = rev (dropWhile (\<lambda>c. c \<noteq> CHR ''}'') (rev (tl t)))
               in if body = [] then None else Some (CHR ''{'' # body)))"

text \<open>Lines 248 to 258: \<^verbatim>\<open>JSON.parse\<close>, then the brace fallback.\<close>

definition parseResponse :: "env \<Rightarrow> string \<Rightarrow> js_error + jsvalue" where
  "parseResponse env responseText =
     (case jsonParse env responseText of
        Inr result \<Rightarrow> Inr result
      | Inl parseError \<Rightarrow>
          (case braceMatch responseText of
             Some jsonMatch \<Rightarrow>
               (case jsonParse env jsonMatch of
                  Inr result \<Rightarrow> Inr result
                | Inl syntaxError \<Rightarrow> Inl (JsError (Some syntaxError)))
           | None \<Rightarrow> Inl (JsError (Some ''Failed to parse AI response as JSON''))))"

text \<open>
  Lines 260 to 265: the record built from the parsed response, its properties evaluated
  in the order of the source.
\<close>

definition mapParsed :: "string \<Rightarrow> jsvalue \<Rightarrow> js_error + ClassificationResult" where
  "mapParsed url result =
     (case getProp result ''verdict'' of
        Inl e \<Rightarrow> Inl e
      | Inr verdict \<Rightarrow>
          (case getProp result ''score'' of
             Inl e \<Rightarrow> Inl e
           | Inr score \<Rightarrow>
               (case parseInt score of
                  Inl e \<Rightarrow> Inl e
                | Inr parsed \<Rightarrow>
                    (case getProp result ''reason'' of
                       Inl e \<Rightarrow> Inl e
                     | Inr reason \<Rightarrow>
                         Inr \<lparr>cr_url = url,
                              cr_verdict =
                                (if truthy verdict then verdict else JStr ''DISQUALIFY''),
                              cr_score = orZero parsed,
                              cr_reason =
                                (if truthy reason then reason
                                 else JStr ''Unable to determine qualification.'')\<rparr>))))"

subsection \<open>\<^verbatim>\<open>qualifyWebsite\<close>\<close>

definition userMessage :: "string \<Rightarrow> string \<Rightarrow> string" where
  "userMessage url scrapedContent =
     ''Please analyze this website and determine if it matches our ICP.'' @ newline @ newline @
     ''Website URL: '' @ url @ newline @ newline @
     ''Scraped website content:'' @ newline @ scrapedContent @ newline @ newline @
     ''Based on the content above, determine if this company is a qualified prospect according to the ICP criteria provided in your system prompt. Return your response in the exact JSON format specified.''"

text \<open>The operation handed to \<^verbatim>\<open>withRetry\<close>: one call of the classification service.\<close>

definition requestCompletion ::
  "env \<Rightarrow> string \<Rightarrow> string \<Rightarrow> world \<Rightarrow> (js_error + chat_completion) \<times> world" where
  "requestCompletion env systemPrompt message w =
     (createCompletion env (modelCalls w) systemPrompt message,
      w\<lparr>modelCalls := Suc (modelCalls w)\<rparr>)"

text \<open>The \<^verbatim>\<open>try\<close> block of \<^verbatim>\<open>qualifyWebsite\<close> (lines 211 to 265).\<close>

definition qualifyWebsite_try ::
  "env \<Rightarrow> string \<Rightarrow> string \<Rightarrow> string \<Rightarrow> int \<Rightarrow> world
     \<Rightarrow> (js_error + ClassificationResult) \<times> world" where
  "qualifyWebsite_try env url scrapedContent systemPrompt maxRetries w =
     (if scrapedContent = [] \<or> length scrapedContent < 20
      then (Inr \<lparr>cr_url = url, cr_verdict = JStr ''DISQUALIFY'', cr_score = Num 0,
                 cr_reason = JStr ''Website inaccessible or no product description found.''\<rparr>,
            w)
      else
        (case withRetry (requestCompletion env systemPrompt (userMessage url scrapedContent))
                maxRetries 2000 w of
           (Inl e, w') \<Rightarrow> (Inl e, w')
         | (Inr completion, w') \<Rightarrow>
             (case responseTextOf completion of
                Inl e \<Rightarrow> (Inl e, w')
              | Inr None \<Rightarrow> (Inl (JsError (Some ''No response from AI'')), w')
              | Inr (Some responseText) \<Rightarrow>
                  if responseText = [] then (Inl (JsError (Some ''No response from AI'')), w')
                  else (case parseResponse env responseText of
                          Inl e \<Rightarrow> (Inl e, w')
                        | Inr result \<Rightarrow> (mapParsed url result, w')))))"

text \<open>\<^verbatim>\<open>qualifyWebsite\<close> (lines 209 to 276): the \<^verbatim>\<open>try\<close> block under its \<^verbatim>\<open>catch\<close>.\<close>

definition qualifyWebsite ::
  "env \<Rightarrow> string \<Rightarrow> string \<Rightarrow> string \<Rightarrow> int \<Rightarrow> world
     \<Rightarrow> (js_error + ClassificationResult) \<times> world" where
  "qualifyWebsite env url scrapedContent systemPrompt maxRetries w =
     (case qualifyWebsite_try env url scrapedContent systemPrompt maxRetries w of
        (Inr r, w') \<Rightarrow> (Inr r, w')
      | (Inl error, w') \<Rightarrow>
          (Inr \<lparr>cr_url = url, cr_verdict = JStr ''DISQUALIFY'', cr_score = Num 0,
                cr_reason = JStr (''Error: '' @ messageText error)\<rparr>,
           w'))"

section \<open>Pipeline Orchestrator\<close>

text \<open>
  The \<^verbatim>\<open>for\<close> loop of \<^verbatim>\<open>main\<close> (lines 315 to 356) over the URLs still to process;
  \<^verbatim>\<open>i < urls.length - 1\<close> says that some URL is left.  \<^verbatim>\<open>main\<close> catches nothing, so an
  error thrown by \<^verbatim>\<open>scrapeWebsite\<close> or \<^verbatim>\<open>qualifyWebsite\<close> would end the run.
\<close>

fun processUrls ::
  "env \<Rightarrow> string \<Rightarrow> int \<Rightarrow> int \<Rightarrow> string list \<Rightarrow> ClassificationResult list \<Rightarrow> world
     \<Rightarrow> (js_error + ClassificationResult list) \<times> world" where
  "processUrls env icpSystemPrompt delayBetweenRequests maxRetries [] results w = (Inr results, w)"
| "processUrls env icpSystemPrompt delayBetweenRequests maxRetries (url # rest) results w =
     (case scrapeWebsite env url w of
        (Inl e, w1) \<Rightarrow> (Inl e, w1)
      | (Inr scraped, w1) \<Rightarrow>
          if \<not> sr_success scraped then
            (let result =
                   \<lparr>cr_url = url, cr_verdict = JStr ''DISQUALIFY'', cr_score = Num 0,
                    cr_reason =
                      JStr (''Website inaccessible or no product description found. Error: '' @
                            (case sr_error scraped of None \<Rightarrow> ''undefined'' | Some m \<Rightarrow> m))\<rparr>;
                 w2 = pushData result w1;
                 w3 = (if rest \<noteq> [] then sleep delayBetweenRequests w2 else w2)
             in processUrls env icpSystemPrompt delayBetweenRequests maxRetries rest
                  (results @ [result]) w3)
          else
            (case qualifyWebsite env url (sr_content scraped) icpSystemPrompt maxRetries w1 of
               (Inl e, w2) \<Rightarrow> (Inl e, w2)
             | (Inr qualification, w2) \<Rightarrow>
                 (let w3 = pushData qualification w2;
                      w4 = (if rest \<noteq> [] then sleep delayBetweenRequests w3 else w3)
                  in processUrls env icpSystemPrompt delayBetweenRequests maxRetries rest
                       (results @ [qualification]) w4)))"

text \<open>
  The actor's input.  \<open>in_urls\<close> is \<open>None\<close> when \<^verbatim>\<open>urls\<close> is missing or no array; the
  three optional fields take their defaults when \<^verbatim>\<open>undefined\<close>.
\<close>

record actor_input =
  in_urls :: "string list option"
  in_openrouterApiKey :: "string option"
  in_icpSystemPrompt :: "string option"
  in_delayBetweenRequests :: "int option"
  in_maxRetries :: "int option"

definition summarize :: "string list \<Rightarrow> ClassificationResult list \<Rightarrow> RunSummary" where
  "summarize urls results =
     \<lparr>rs_total = length urls,
      rs_qualified = length (filter (\<lambda>r. cr_verdict r = JStr ''QUALIFY'') results),
      rs_disqualified = length (filter (\<lambda>r. cr_verdict r = JStr ''DISQUALIFY'') results),
      rs_results = results\<rparr>"

text \<open>
  \<^verbatim>\<open>main\<close> (lines 279 to 372); the value is the summary stored under \<^verbatim>\<open>OUTPUT\<close>.  The
  built-in prompt \<^verbatim>\<open>DEFAULT_SYSTEM_PROMPT\<close> is passed through untouched and is a
  parameter here.
\<close>

definition main ::
  "env \<Rightarrow> string \<Rightarrow> actor_input option \<Rightarrow> world \<Rightarrow> (js_error + RunSummary) \<times> world" where
  "main env DEFAULT_SYSTEM_PROMPT input w =
     (case input of
        None \<Rightarrow>
          (Inl (JsError (Some (''Input must contain a '' @ [CHR 0x22] @ ''urls'' @ [CHR 0x22] @
                               '' array with at least one URL''))), w)
      | Some inp \<Rightarrow>
          (case in_urls inp of
             None \<Rightarrow>
               (Inl (JsError (Some (''Input must contain a '' @ [CHR 0x22] @ ''urls'' @ [CHR 0x22] @
                                    '' array with at least one URL''))), w)
           | Some urls \<Rightarrow>
               if urls = [] then
                 (Inl (JsError (Some (''Input must contain a '' @ [CHR 0x22] @ ''urls'' @
                                      [CHR 0x22] @ '' array with at least one URL''))), w)
               else if in_openrouterApiKey inp = None \<or> in_openrouterApiKey inp = Some [] then
                 (Inl (JsError (Some (''Input must contain '' @ [CHR 0x22] @ ''openrouterApiKey'' @
                                      [CHR 0x22]))), w)
               else
                 (let icpSystemPrompt =
                        (case in_icpSystemPrompt inp of
                           None \<Rightarrow> DEFAULT_SYSTEM_PROMPT | Some p \<Rightarrow> p);
                      delayBetweenRequests =
                        (case in_delayBetweenRequests inp of None \<Rightarrow> 2000 | Some d \<Rightarrow> d);
                      maxRetries = (case in_maxRetries inp of None \<Rightarrow> 3 | Some m \<Rightarrow> m)
                  in case processUrls env icpSystemPrompt delayBetweenRequests maxRetries
                            urls [] w of
                       (Inl e, w') \<Rightarrow> (Inl e, w')
                     | (Inr results, w') \<Rightarrow> (Inr (summarize urls results), w'))))"

section \<open>Sample runs\<close>

text \<open>Concrete collaborators and inputs on which the theorems below are exercised.\<close>

definition initialWorld :: world where
  "initialWorld = \<lparr>pagesOpened = 0, modelCalls = 0, waits = [], dataset = []\<rparr>"

definition sampleInput :: "string list \<Rightarrow> actor_input" where
  "sampleInput urls =
     \<lparr>in_urls = Some urls, in_openrouterApiKey = Some ''sk-or-key'', in_icpSystemPrompt = None,
      in_delayBetweenRequests = None, in_maxRetries = None\<rparr>"

text \<open>A browser whose navigation always times out.\<close>

definition timeoutError :: js_error where
  "timeoutError = JsError (Some ''page.goto: Timeout 30000ms exceeded.'')"

definition timeoutEnv :: env where
  "timeoutEnv =
     \<lparr>browse = (\<lambda>k u. PageThrows timeoutError),
      createCompletion = (\<lambda>k p m. Inl (JsError (Some ''503 Service Unavailable''))),
      jsonParse = (\<lambda>t. Inl ''Unexpected end of JSON input'')\<rparr>"

definition timeoutRecord :: "string \<Rightarrow> ClassificationResult" where
  "timeoutRecord url =
     \<lparr>cr_url = url, cr_verdict = JStr ''DISQUALIFY'', cr_score = Num 0,
      cr_reason = JStr ''Website inaccessible or no product description found. Error: Scraping failed: page.goto: Timeout 30000ms exceeded.''\<rparr>"

text \<open>
  A site with enough text, and a model that answers with a verdict outside the two
  expected ones and a score above 10.
\<close>

definition acmeTitle :: string where
  "acmeTitle = ''Acme Outreach - cold email software for B2B sales teams''"

definition maybeText :: string where
  \<open>maybeText = ''{"verdict":"MAYBE","score":15}''\<close>

definition maybeObject :: jsvalue where
  "maybeObject = JObj [(''verdict'', JStr ''MAYBE''), (''score'', JNum 15)]"

definition maybeCompletion :: chat_completion where
  "maybeCompletion = ChatCompletion (Inr [ChatChoice (Some (ChatMessage (Some maybeText)))])"

definition maybeEnv :: env where
  "maybeEnv =
     \<lparr>browse = (\<lambda>k u. PageContent
         \<lparr>pc_title = acmeTitle, pc_metaDescription = [], pc_h1 = [], pc_headings = [],
          pc_bodyText = [], pc_heroText = []\<rparr>),
      createCompletion = (\<lambda>k p m. Inr maybeCompletion),
      jsonParse = (\<lambda>t. if t = maybeText then Inr maybeObject else Inl ''Unexpected token'')\<rparr>"



definition maybeRecord :: "string \<Rightarrow> ClassificationResult" where
  "maybeRecord url =
     \<lparr>cr_url = url, cr_verdict = JStr ''MAYBE'', cr_score = Num 15,
      cr_reason = JStr ''Unable to determine qualification.''\<rparr>"

text \<open>A service that is rate limited on its first two calls.\<close>

definition rateLimitError :: js_error where
  "rateLimitError = JsError (Some ''429 rate_limit_exceeded'')"

definition flakyEnv :: env where
  "flakyEnv =
     \<lparr>browse = browse maybeEnv,
      createCompletion = (\<lambda>k p m. if k < 2 then Inl rateLimitError else Inr maybeCompletion),
      jsonParse = jsonParse maybeEnv\<rparr>"

text \<open>A failure that is not recoverable, and an operation that always raises it.\<close>

definition authError :: js_error where
  "authError = JsError (Some ''401 Unauthorized'')"

definition alwaysUnauthorized :: "world \<Rightarrow> (js_error + chat_completion) \<times> world" where
  "alwaysUnauthorized w = (Inl authError, w\<lparr>modelCalls := Suc (modelCalls w)\<rparr>)"

section \<open>Auxiliary notions\<close>

text \<open>A non-empty string of decimal digits.\<close>

definition decimal :: "string \<Rightarrow> bool" where
  "decimal ds = (ds \<noteq> [] \<and> list_all (\<lambda>c. digitVal c < 10) ds)"

text \<open>The number that a string of decimal digits denotes.\<close>

definition decimalValue :: "string \<Rightarrow> nat" where
  "decimalValue ds = foldl (\<lambda>acc c. acc * 10 + digitVal c) 0 ds"


text \<open>Both verdicts that the summary counts.\<close>

definition counted :: "ClassificationResult \<Rightarrow> bool" where
  "counted r = (cr_verdict r = JStr ''QUALIFY'' \<or> cr_verdict r = JStr ''DISQUALIFY'')"

section \<open>Strings and the URL Normalizer: lemmas\<close>

lemma endsWith_single: "endsWith s [c] \<longleftrightarrow> s \<noteq> [] \<and> last s = c"
  by (cases s rule: rev_cases) (auto simp: endsWith_def)

lemma endsWith_pair: "endsWith s [c, d] \<longleftrightarrow> (\<exists>t. s = t @ [c, d])"
proof
  assume "endsWith s [c, d]"
  then have "s = take (length s - 2) s @ [c, d]"
    by (metis append_take_drop_id endsWith_def length_Cons list.size(3) numeral_2_eq_2)
  then show "\<exists>t. s = t @ [c, d]" ..
next
  assume "\<exists>t. s = t @ [c, d]"
  then show "endsWith s [c, d]" by (auto simp: endsWith_def)
qed

lemma startsWith_append: "startsWith (p @ s) p"
  by (simp add: startsWith_def)

lemma startsWith_Nil: "startsWith [] p \<longleftrightarrow> p = []"
  by (auto simp: startsWith_def)

lemma startsWith_hd: "startsWith s (c # p) \<Longrightarrow> s \<noteq> [] \<and> hd s = c"
  by (cases s) (auto simp: startsWith_def)

lemma normalizeUrl_scheme:
  "startsWith (normalizeUrl s) ''http://'' \<or> startsWith (normalizeUrl s) ''https://''"
  unfolding normalizeUrl_def Let_def
  using startsWith_append [of "''https://''"] by (simp del: append.simps)

lemma normalizeUrl_slash:
  "endsWith (normalizeUrl s) ''/'' \<longleftrightarrow>
     trim s = [] \<or> trim s = ''/'' \<or> endsWith (trim s) ''//''"
proof (cases "trim s" rule: rev_cases)
  case Nil
  then show ?thesis
    by (simp add: normalizeUrl_def Let_def endsWith_single endsWith_pair startsWith_def)
next
  case (snoc t c)
  then show ?thesis
    by (cases t rule: rev_cases)
       (auto simp: normalizeUrl_def Let_def endsWith_single endsWith_pair startsWith_Nil
          butlast_append)
qed

lemma trim_fixed:
  assumes "s \<noteq> []" "\<not> isWhiteSpace (hd s)" "\<not> isWhiteSpace (last s)"
  shows "trim s = s"
proof -
  have "dropWhile isWhiteSpace s = s"
    using assms by (cases s) auto
  moreover have "dropWhile isWhiteSpace (rev s) = rev s"
    using assms by (cases s rule: rev_cases) auto
  ultimately show ?thesis by (simp add: trim_def)
qed

lemma normalizeUrl_fixed:
  assumes "startsWith u ''http://'' \<or> startsWith u ''https://''"
    and "\<not> endsWith u ''/''" and "\<not> isWhiteSpace (last u)"
  shows "normalizeUrl u = u"
proof -
  from assms(1) have "u \<noteq> [] \<and> hd u = CHR ''h''"
    using startsWith_hd by blast
  moreover have "\<not> isWhiteSpace CHR ''h''"
    by (simp add: isWhiteSpace_def)
  ultimately have "trim u = u"
    using assms(3) by (simp add: trim_fixed)
  with assms(1,2) show ?thesis
    by (auto simp: normalizeUrl_def)
qed

lemma normalizeUrl_two_slashes: "normalizeUrl ''example.com//'' = ''https://example.com/''"
  by (simp add: normalizeUrl_def trim_def isWhiteSpace_def endsWith_def startsWith_def)

section \<open>Retry Executor: lemmas\<close>

declare withRetry_from.simps [simp del]

lemma withRetry_from_past:
  "maxRetries < attempt \<Longrightarrow> withRetry_from fn maxRetries baseDelay attempt w = (Inr None, w)"
  by (subst withRetry_from.simps) simp

lemma withRetry_from_success:
  "attempt \<le> maxRetries \<Longrightarrow> fn w = (Inr v, w') \<Longrightarrow>
   withRetry_from fn maxRetries baseDelay attempt w = (Inr (Some v), w')"
  by (subst withRetry_from.simps) simp

lemma withRetry_from_rethrow:
  "attempt \<le> maxRetries \<Longrightarrow> fn w = (Inl e, w') \<Longrightarrow>
   attempt = maxRetries \<or> (\<not> isRateLimit e \<and> \<not> isServerError e) \<Longrightarrow>
   withRetry_from fn maxRetries baseDelay attempt w = (Inl e, w')"
  by (subst withRetry_from.simps) auto

lemma withRetry_from_backoff:
  "attempt < maxRetries \<Longrightarrow> fn w = (Inl e, w') \<Longrightarrow> isRateLimit e \<or> isServerError e \<Longrightarrow>
   withRetry_from fn maxRetries baseDelay attempt w =
   withRetry_from fn maxRetries baseDelay (attempt + 1)
     (sleep (baseDelay * 2 ^ nat (attempt - 1)) w')"
  by (subst withRetry_from.simps) auto

lemma withRetry_none: "maxRetries < 1 \<Longrightarrow> withRetry fn maxRetries baseDelay w = (Inr None, w)"
  unfolding withRetry_def by (rule withRetry_from_past) auto

lemma withRetry_third:
  assumes "isRateLimit e1" "isRateLimit e2"
    and "fn w = (Inl e1, w1)" "fn (sleep 2000 w1) = (Inl e2, w2)"
    and "fn (sleep 4000 w2) = (Inr v, w3)"
  shows "withRetry fn 3 2000 w = (Inr (Some v), w3)"
proof -
  have "withRetry fn 3 2000 w = withRetry_from fn 3 2000 2 (sleep 2000 w1)"
    unfolding withRetry_def using withRetry_from_backoff [of 1 3 fn w e1 w1 2000] assms by simp
  also have "\<dots> = withRetry_from fn 3 2000 3 (sleep 4000 w2)"
    using withRetry_from_backoff [of 2 3 fn "sleep 2000 w1" e2 w2 2000] assms by simp
  also have "\<dots> = (Inr (Some v), w3)"
    using withRetry_from_success [of 3 3 fn "sleep 4000 w2" v w3 2000] assms by simp
  finally show ?thesis .
qed

lemma rateLimitError_recoverable: "isRateLimit rateLimitError"
  by (simp add: isRateLimit_def rateLimitError_def startsWith_def)

lemma authError_not_recoverable: "\<not> isRateLimit authError \<and> \<not> isServerError authError"
  by (simp add: isRateLimit_def isServerError_def authError_def startsWith_def)

section \<open>Classifier: lemmas\<close>

declare digitsOf.simps [simp del]

lemma of_char_digitChar: "d < 10 \<Longrightarrow> (of_char (digitChar d) :: nat) = 48 + d"
  by (simp add: digitChar_def)

lemma digitVal_digitChar: "d < 10 \<Longrightarrow> digitVal (digitChar d) = d"
  by (simp add: digitVal_def of_char_digitChar)

lemma decimal_digitsOf: "decimal (digitsOf n)"
proof (induction n rule: digitsOf.induct)
  case (1 n)
  show ?case
  proof (cases "n < 10")
    case True
    then show ?thesis
      by (subst digitsOf.simps) (simp add: decimal_def digitVal_digitChar)
  next
    case False
    with 1 have "decimal (digitsOf (n div 10))" by simp
    moreover have "digitVal (digitChar (n mod 10)) < 10"
      by (simp add: digitVal_digitChar)
    ultimately show ?thesis
      using False by (subst digitsOf.simps) (simp add: decimal_def)
  qed
qed

lemma value_digitsOf: "decimalValue (digitsOf n) = n"
proof (induction n rule: digitsOf.induct)
  case (1 n)
  show ?case
  proof (cases "n < 10")
    case True
    then show ?thesis
      by (subst digitsOf.simps) (simp add: decimalValue_def digitVal_digitChar)
  next
    case False
    with 1 have "decimalValue (digitsOf (n div 10)) = n div 10"
      by simp
    then show ?thesis
      using False by (subst digitsOf.simps) (simp add: decimalValue_def digitVal_digitChar)
  qed
qed

lemma isWhiteSpace_digitVal: "isWhiteSpace c \<Longrightarrow> digitVal c = 36"
  by (auto simp: isWhiteSpace_def digitVal_def)

lemma decimal_hd: "decimal ds \<Longrightarrow> digitVal (hd ds) < 10"
  by (cases ds) (auto simp: decimal_def)

lemma decimal_not_hex:
  assumes "decimal ds" and "rest = [] \<or> digitVal (hd rest) = 36"
    and "10 \<le> digitVal x" and "digitVal x < 36"
  shows "\<not> startsWith (ds @ rest) [c, x]"
proof (cases ds)
  case Nil
  with assms(1) show ?thesis by (simp add: decimal_def)
next
  case (Cons d ds')
  show ?thesis
  proof (cases ds')
    case Nil
    with Cons assms(2,3,4) show ?thesis
      by (cases rest) (auto simp: startsWith_def)
  next
    case (Cons d' ds'')
    with \<open>ds = d # ds'\<close> assms(1,3) show ?thesis
      by (auto simp: startsWith_def decimal_def)
  qed
qed

lemma decimal_takeWhile:
  assumes "decimal ds" and "rest = [] \<or> digitVal (hd rest) = 36"
  shows "takeWhile (\<lambda>c. digitVal c < 10) (ds @ rest) = ds"
proof -
  have "\<forall>c\<in>set ds. digitVal c < 10"
    using assms(1) by (simp add: decimal_def list_all_iff)
  moreover have "takeWhile (\<lambda>c. digitVal c < 10) rest = []"
    using assms(2) by (cases rest) auto
  ultimately show ?thesis
    by (simp add: takeWhile_append2)
qed

lemma parseIntStr_plain:
  assumes "s \<noteq> []" and "trimStart s = s"
    and "hd s \<noteq> CHR ''-''" and "hd s \<noteq> CHR ''+''"
    and "\<not> startsWith s ''0x''" and "\<not> startsWith s ''0X''"
    and "takeWhile (\<lambda>c. digitVal c < 10) s = ds" and "ds \<noteq> []"
  shows "parseIntStr s =
    (if int (decimalValue ds) \<le> maxExact then Num (int (decimalValue ds)) else Untracked)"
  using assms by (simp add: parseIntStr_def Let_def decimalValue_def)

lemma parseIntStr_minus:
  assumes "\<not> startsWith s ''0x''" and "\<not> startsWith s ''0X''"
    and "takeWhile (\<lambda>c. digitVal c < 10) s = ds" and "ds \<noteq> []"
  shows "parseIntStr (CHR ''-'' # s) =
    (if int (decimalValue ds) \<le> maxExact then Num (- int (decimalValue ds)) else Untracked)"
proof -
  have "trimStart (CHR ''-'' # s) = CHR ''-'' # s"
    by (simp add: trimStart_def isWhiteSpace_def)
  with assms show ?thesis
    by (simp add: parseIntStr_def Let_def decimalValue_def)
qed

lemma parseIntStr_decimal:
  assumes "decimal ds" and "rest = [] \<or> digitVal (hd rest) = 36"
  shows "parseIntStr (ds @ rest) =
    (if int (decimalValue ds) \<le> maxExact then Num (int (decimalValue ds)) else Untracked)"
proof -
  define s where "s = ds @ rest"
  have hd: "digitVal (hd ds) < 10" and ne: "ds \<noteq> []"
    using assms(1) decimal_hd by (auto simp: decimal_def)
  have s: "s \<noteq> []" and hds: "hd s = hd ds"
    using ne by (simp_all add: s_def)
  have ws: "\<not> isWhiteSpace (hd s)"
    using hd hds isWhiteSpace_digitVal [of "hd s"] by auto
  have t: "trimStart s = s"
    using s ws by (cases s) (auto simp: trimStart_def)
  have sign: "hd s \<noteq> CHR ''-''" "hd s \<noteq> CHR ''+''"
    using hd hds by (auto simp: digitVal_def)
  have x: "\<not> startsWith s ''0x''"
    unfolding s_def by (rule decimal_not_hex [OF assms]) (simp_all add: digitVal_def)
  have X: "\<not> startsWith s ''0X''"
    unfolding s_def by (rule decimal_not_hex [OF assms]) (simp_all add: digitVal_def)
  have tw: "takeWhile (\<lambda>c. digitVal c < 10) s = ds"
    unfolding s_def using assms by (rule decimal_takeWhile)
  show ?thesis
    unfolding s_def [symmetric]
    by (rule parseIntStr_plain [OF s t sign x X tw ne])
qed

lemma parseIntStr_minus_decimal:
  assumes "decimal ds" and "rest = [] \<or> digitVal (hd rest) = 36"
  shows "parseIntStr (CHR ''-'' # ds @ rest) =
    (if int (decimalValue ds) \<le> maxExact then Num (- int (decimalValue ds)) else Untracked)"
proof -
  have ne: "ds \<noteq> []"
    using assms(1) by (auto simp: decimal_def)
  have x: "\<not> startsWith (ds @ rest) ''0x''"
    by (rule decimal_not_hex [OF assms]) (simp_all add: digitVal_def)
  have X: "\<not> startsWith (ds @ rest) ''0X''"
    by (rule decimal_not_hex [OF assms]) (simp_all add: digitVal_def)
  have tw: "takeWhile (\<lambda>c. digitVal c < 10) (ds @ rest) = ds"
    using assms by (rule decimal_takeWhile)
  show ?thesis
    by (rule parseIntStr_minus [OF x X tw ne])
qed

lemma parseInt_JNum:
  assumes "\<bar>n\<bar> \<le> maxExact"
  shows "parseInt (JNum n) = Inr (Num n)"
proof (cases "n < 0")
  case True
  have "parseIntStr (CHR ''-'' # digitsOf (nat (- n)) @ []) = Num n"
    using True assms
    by (subst parseIntStr_minus_decimal) (simp_all add: decimal_digitsOf value_digitsOf)
  with True assms show ?thesis
    by (simp add: parseInt_def numberToString_def)
next
  case False
  have "parseIntStr (digitsOf (nat n) @ []) = Num n"
    using False assms
    by (subst parseIntStr_decimal) (simp_all add: decimal_digitsOf value_digitsOf)
  with False assms show ?thesis
    by (simp add: parseInt_def numberToString_def)
qed





lemma mapParsed_url: "mapParsed url result = Inr r \<Longrightarrow> cr_url r = url"
  by (auto simp: mapParsed_def split: sum.splits)


lemma mapParsed_maybeObject: "mapParsed url maybeObject = Inr (maybeRecord url)"
proof -
  have "parseInt (JNum 15) = Inr (Num 15)"
    by (rule parseInt_JNum) (simp add: maxExact_def)
  then show ?thesis
    by (simp add: mapParsed_def maybeObject_def maybeRecord_def orZero_def)
qed


lemma withRetry_from_dataset:
  "dataset (snd (withRetry_from (requestCompletion env p m) maxRetries baseDelay attempt w)) =
     dataset w"
proof (induction "requestCompletion env p m" maxRetries baseDelay attempt w
       rule: withRetry_from.induct)
  case (1 maxRetries baseDelay attempt w)
  show ?case
  proof (cases "createCompletion env (modelCalls w) p m")
    case (Inr v)
    then show ?thesis
      by (subst withRetry_from.simps) (simp add: requestCompletion_def)
  next
    case (Inl e)
    then have fn: "requestCompletion env p m w = (Inl e, w\<lparr>modelCalls := Suc (modelCalls w)\<rparr>)"
      by (simp add: requestCompletion_def)
    show ?thesis
    proof (cases "attempt \<le> maxRetries \<and>
                  \<not> (attempt = maxRetries \<or> (\<not> isRateLimit e \<and> \<not> isServerError e))")
      case True
      with 1 [OF _ fn [symmetric]] fn show ?thesis
        by (subst withRetry_from.simps) (simp add: sleep_def)
    next
      case False
      with fn show ?thesis
        by (subst withRetry_from.simps) auto
    qed
  qed
qed

lemma qualifyWebsite_try_world:
  "snd (qualifyWebsite_try env url content prompt maxRetries w) =
     (if content = [] \<or> length content < 20 then w
      else snd (withRetry (requestCompletion env prompt (userMessage url content))
                  maxRetries 2000 w))"
  by (simp add: qualifyWebsite_try_def split: prod.split sum.split option.split)

lemma qualifyWebsite_try_dataset:
  "dataset (snd (qualifyWebsite_try env url content prompt maxRetries w)) = dataset w"
  unfolding qualifyWebsite_try_world withRetry_def
  by (simp add: withRetry_from_dataset)

lemma qualifyWebsite_try_url:
  "qualifyWebsite_try env url content prompt maxRetries w = (Inr r, w') \<Longrightarrow> cr_url r = url"
  by (auto simp: qualifyWebsite_try_def mapParsed_url
           split: prod.splits sum.splits option.splits if_splits)

lemma qualifyWebsite_returns:
  "\<exists>r w'. qualifyWebsite env url content prompt maxRetries w = (Inr r, w') \<and> cr_url r = url \<and>
     dataset w' = dataset w"
proof (cases "qualifyWebsite_try env url content prompt maxRetries w")
  case (Pair res w')
  with qualifyWebsite_try_dataset [of env url content prompt maxRetries w]
  have d: "dataset w' = dataset w" by simp
  show ?thesis
  proof (cases res)
    case (Inl e)
    with Pair d show ?thesis by (simp add: qualifyWebsite_def)
  next
    case (Inr r)
    with Pair d qualifyWebsite_try_url [of env url content prompt maxRetries w r w']
    show ?thesis by (simp add: qualifyWebsite_def)
  qed
qed

lemma qualifyWebsite_none:
  assumes "maxRetries < 1" and "20 \<le> length content"
  shows "qualifyWebsite env url content prompt maxRetries w =
    (Inr \<lparr>cr_url = url, cr_verdict = JStr ''DISQUALIFY'', cr_score = Num 0,
           cr_reason = JStr (''Error: '' @ messageText (cannotRead ''undefined'' ''choices''))\<rparr>,
     w)"
  using assms by (auto simp: qualifyWebsite_def qualifyWebsite_try_def withRetry_none)

lemma qualify_maybe:
  assumes "20 \<le> length content"
  shows "qualifyWebsite maybeEnv url content prompt 3 w =
     (Inr (maybeRecord url), w\<lparr>modelCalls := Suc (modelCalls w)\<rparr>)"
proof -
  have "withRetry (requestCompletion maybeEnv prompt (userMessage url content)) 3 2000 w =
      (Inr (Some maybeCompletion), w\<lparr>modelCalls := Suc (modelCalls w)\<rparr>)"
    unfolding withRetry_def
    by (rule withRetry_from_success) (simp_all add: requestCompletion_def maybeEnv_def)
  moreover have "responseTextOf (Some maybeCompletion) = Inr (Some maybeText)"
    by (simp add: maybeCompletion_def)
  moreover have "maybeText \<noteq> []"
    by (simp add: maybeText_def)
  moreover have "parseResponse maybeEnv maybeText = Inr maybeObject"
    by (simp add: parseResponse_def maybeEnv_def)
  ultimately show ?thesis
    using assms by (auto simp: qualifyWebsite_def qualifyWebsite_try_def mapParsed_maybeObject)
qed

section \<open>Content Extractor and Orchestrator: lemmas\<close>

lemma scrapeWebsite_returns:
  "\<exists>scraped. scrapeWebsite env url w = (Inr scraped, w\<lparr>pagesOpened := Suc (pagesOpened w)\<rparr>)"
  by (simp add: scrapeWebsite_def Let_def split: page_outcome.split)

lemma scrapeWebsite_throws:
  "browse env (pagesOpened w) (normalizeUrl url) = PageThrows e \<Longrightarrow>
   scrapeWebsite env url w =
     (Inr \<lparr>sr_url = url, sr_content = [], sr_title = [], sr_success = False,
           sr_error = Some (''Scraping failed: '' @ messageText e)\<rparr>,
      w\<lparr>pagesOpened := Suc (pagesOpened w)\<rparr>)"
  by (simp add: scrapeWebsite_def Let_def)

lemma scrape_maybe:
  "scrapeWebsite maybeEnv url w =
     (Inr \<lparr>sr_url = normalizeUrl url, sr_content = acmeTitle, sr_title = acmeTitle,
           sr_success = True, sr_error = None\<rparr>, w\<lparr>pagesOpened := Suc (pagesOpened w)\<rparr>)"
  by (simp add: scrapeWebsite_def maybeEnv_def Let_def acmeTitle_def)

lemma processUrls_records:
  "\<exists>rs w'. processUrls env prompt delay maxRetries urls acc w = (Inr (acc @ rs), w') \<and>
      dataset w' = dataset w @ rs \<and> map cr_url rs = urls"
proof (induction urls arbitrary: acc w)
  case Nil
  then show ?case by simp
next
  case (Cons url rest)
  let ?w1 = "w\<lparr>pagesOpened := Suc (pagesOpened w)\<rparr>"
  obtain scraped where s: "scrapeWebsite env url w = (Inr scraped, ?w1)"
    using scrapeWebsite_returns by blast
  show ?case
  proof (cases "sr_success scraped")
    case False
    define result where "result =
      \<lparr>cr_url = url, cr_verdict = JStr ''DISQUALIFY'', cr_score = Num 0,
       cr_reason = JStr (''Website inaccessible or no product description found. Error: '' @
                            (case sr_error scraped of None \<Rightarrow> ''undefined'' | Some m \<Rightarrow> m))\<rparr>"
    define w3 where
      "w3 = (if rest \<noteq> [] then sleep delay (pushData result ?w1) else pushData result ?w1)"
    have step: "processUrls env prompt delay maxRetries (url # rest) acc w =
        processUrls env prompt delay maxRetries rest (acc @ [result]) w3"
      using s False by (simp add: Let_def result_def w3_def)
    have d3: "dataset w3 = dataset w @ [result]"
      by (simp add: w3_def sleep_def pushData_def)
    from Cons.IH [of "acc @ [result]" w3] obtain rs w' where
      "processUrls env prompt delay maxRetries rest (acc @ [result]) w3 =
         (Inr ((acc @ [result]) @ rs), w')"
      "dataset w' = dataset w3 @ rs" "map cr_url rs = rest"
      by blast
    with step d3 have
      "processUrls env prompt delay maxRetries (url # rest) acc w =
         (Inr (acc @ (result # rs)), w') \<and>
       dataset w' = dataset w @ (result # rs) \<and> map cr_url (result # rs) = url # rest"
      by (simp add: result_def)
    then show ?thesis
      by (intro exI [where x = "result # rs"] exI [where x = w'])
  next
    case True
    obtain q w2 where
      q: "qualifyWebsite env url (sr_content scraped) prompt maxRetries ?w1 = (Inr q, w2)"
        "cr_url q = url" "dataset w2 = dataset ?w1"
      using qualifyWebsite_returns by blast
    define w4 where "w4 = (if rest \<noteq> [] then sleep delay (pushData q w2) else pushData q w2)"
    have step: "processUrls env prompt delay maxRetries (url # rest) acc w =
        processUrls env prompt delay maxRetries rest (acc @ [q]) w4"
      using s True q(1) by (simp add: Let_def w4_def)
    have d4: "dataset w4 = dataset w @ [q]"
      using q(3) by (simp add: w4_def sleep_def pushData_def)
    from Cons.IH [of "acc @ [q]" w4] obtain rs w' where
      "processUrls env prompt delay maxRetries rest (acc @ [q]) w4 =
         (Inr ((acc @ [q]) @ rs), w')"
      "dataset w' = dataset w4 @ rs" "map cr_url rs = rest"
      by blast
    with step d4 q(2) have
      "processUrls env prompt delay maxRetries (url # rest) acc w = (Inr (acc @ (q # rs)), w') \<and>
       dataset w' = dataset w @ (q # rs) \<and> map cr_url (q # rs) = url # rest"
      by simp
    then show ?thesis
      by (intro exI [where x = "q # rs"] exI [where x = w'])
  qed
qed

lemma main_validated:
  assumes "in_urls inp = Some urls" and "urls \<noteq> []"
    and "in_openrouterApiKey inp = Some key" and "key \<noteq> []"
  shows "main env dflt (Some inp) w =
    (case processUrls env
            (case in_icpSystemPrompt inp of None \<Rightarrow> dflt | Some p \<Rightarrow> p)
            (case in_delayBetweenRequests inp of None \<Rightarrow> 2000 | Some d \<Rightarrow> d)
            (case in_maxRetries inp of None \<Rightarrow> 3 | Some m \<Rightarrow> m) urls [] w of
       (Inl e, w') \<Rightarrow> (Inl e, w')
     | (Inr results, w') \<Rightarrow> (Inr (summarize urls results), w'))"
  using assms by (simp add: main_def Let_def)

lemma main_summary:
  assumes "main env dflt input w = (Inr summary, w')"
  shows "\<exists>inp urls. input = Some inp \<and> in_urls inp = Some urls \<and>
           summary = summarize urls (rs_results summary) \<and>
           length (rs_results summary) = length urls"
proof -
  from assms obtain inp where i: "input = Some inp"
    by (cases input) (auto simp: main_def)
  from assms i obtain urls where u: "in_urls inp = Some urls"
    by (cases "in_urls inp") (auto simp: main_def)
  let ?run = "processUrls env
            (case in_icpSystemPrompt inp of None \<Rightarrow> dflt | Some p \<Rightarrow> p)
            (case in_delayBetweenRequests inp of None \<Rightarrow> 2000 | Some d \<Rightarrow> d)
            (case in_maxRetries inp of None \<Rightarrow> 3 | Some m \<Rightarrow> m) urls [] w"
  obtain rs w2 where p: "?run = (Inr ([] @ rs), w2)" "map cr_url rs = urls"
    using processUrls_records by blast
  from assms i u p(1) have "summary = summarize urls rs"
    by (auto simp: main_def Let_def split: if_splits)
  moreover from p(2) have "length rs = length urls"
    by (metis length_map)
  ultimately have "summary = summarize urls (rs_results summary) \<and>
      length (rs_results summary) = length urls"
    by (simp add: summarize_def)
  with i u show ?thesis by blast
qed

lemma count_two_verdicts:
  "length (filter (\<lambda>r. cr_verdict r = JStr ''QUALIFY'') rs) +
   length (filter (\<lambda>r. cr_verdict r = JStr ''DISQUALIFY'') rs) \<le> length rs \<and>
   (length (filter (\<lambda>r. cr_verdict r = JStr ''QUALIFY'') rs) +
    length (filter (\<lambda>r. cr_verdict r = JStr ''DISQUALIFY'') rs) = length rs
      \<longleftrightarrow> list_all counted rs)"
proof (induction rs)
  case Nil
  then show ?case by simp
next
  case (Cons r rs)
  then show ?case by (auto simp: counted_def)
qed

lemma run_maybe:
  "main maybeEnv prompt (Some (sampleInput [''example.com''])) initialWorld =
     (Inr \<lparr>rs_total = 1, rs_qualified = 0, rs_disqualified = 0,
           rs_results = [maybeRecord ''example.com'']\<rparr>,
      \<lparr>pagesOpened = 1, modelCalls = 1, waits = [],
       dataset = [maybeRecord ''example.com'']\<rparr>)"
proof -
  have "20 \<le> length acmeTitle"
    by (simp add: acmeTitle_def)
  then show ?thesis
    by (simp add: main_def sampleInput_def scrape_maybe qualify_maybe pushData_def summarize_def
        initialWorld_def maybeRecord_def)
qed

lemma run_timeout:
  "main timeoutEnv prompt (Some (sampleInput [''badsite.invalid''])) initialWorld =
     (Inr \<lparr>rs_total = 1, rs_qualified = 0, rs_disqualified = 1,
           rs_results = [timeoutRecord ''badsite.invalid'']\<rparr>,
      \<lparr>pagesOpened = 1, modelCalls = 0, waits = [],
       dataset = [timeoutRecord ''badsite.invalid'']\<rparr>)"
proof -
  have "scrapeWebsite timeoutEnv ''badsite.invalid'' initialWorld =
     (Inr \<lparr>sr_url = ''badsite.invalid'', sr_content = [], sr_title = [], sr_success = False,
           sr_error = Some (''Scraping failed: '' @ messageText timeoutError)\<rparr>,
      initialWorld\<lparr>pagesOpened := Suc (pagesOpened initialWorld)\<rparr>)"
    by (rule scrapeWebsite_throws) (simp add: timeoutEnv_def)
  then show ?thesis
    by (simp add: main_def sampleInput_def pushData_def summarize_def initialWorld_def
        timeoutRecord_def timeoutError_def Let_def)
qed

section \<open>The claims\<close>

subsection \<open>URL Normalizer\<close>

text \<open>
  Claim C4, as amended.  For every input string the normalised URL starts with
  \<^verbatim>\<open>http://\<close> or \<^verbatim>\<open>https://\<close>.  Only one trailing slash is stripped, and the scheme is
  prepended to whatever is left, so the result still ends with a slash exactly when the
  trimmed input is empty, is a lone slash, or ends with two slashes.
\<close>

theorem normalizeUrl_scheme_and_slash:
  "(startsWith (normalizeUrl s) ''http://'' \<or> startsWith (normalizeUrl s) ''https://'') \<and>
   (endsWith (normalizeUrl s) ''/'' \<longleftrightarrow>
      trim s = [] \<or> trim s = ''/'' \<or> endsWith (trim s) ''//'')"
  using normalizeUrl_scheme [of s] normalizeUrl_slash [of s] by blast

text \<open>
  Claim C4 as stated fails: \<^verbatim>\<open>example.com//\<close> is normalised to
  \<^verbatim>\<open>https://example.com/\<close>, which has a trailing slash.
\<close>

theorem normalizeUrl_keeps_second_slash:
  "\<not> ((startsWith (normalizeUrl ''example.com//'') ''http://'' \<or>
        startsWith (normalizeUrl ''example.com//'') ''https://'') \<and>
       \<not> endsWith (normalizeUrl ''example.com//'') ''/'')"
  by (simp add: normalizeUrl_two_slashes endsWith_def)

text \<open>
  Claim C5, as amended.  Normalising twice gives the same string as normalising once
  whenever the normalised string ends neither with a slash nor with white space; and
  \<^verbatim>\<open>example.com/\<close> is normalised to \<^verbatim>\<open>https://example.com\<close>.
\<close>

theorem normalizeUrl_idempotent_when_clean:
  "(\<not> endsWith (normalizeUrl s) ''/'' \<and> \<not> isWhiteSpace (last (normalizeUrl s))
      \<longrightarrow> normalizeUrl (normalizeUrl s) = normalizeUrl s) \<and>
   normalizeUrl ''example.com/'' = ''https://example.com''"
proof
  show "\<not> endsWith (normalizeUrl s) ''/'' \<and> \<not> isWhiteSpace (last (normalizeUrl s))
      \<longrightarrow> normalizeUrl (normalizeUrl s) = normalizeUrl s"
    using normalizeUrl_fixed [OF normalizeUrl_scheme, of s] by blast
  show "normalizeUrl ''example.com/'' = ''https://example.com''"
    by (simp add: normalizeUrl_def trim_def isWhiteSpace_def endsWith_def startsWith_def)
qed

theorem normalizeUrl_idempotent_example:
  "\<not> endsWith (normalizeUrl ''example.com/'') ''/'' \<and>
   \<not> isWhiteSpace (last (normalizeUrl ''example.com/'')) \<and>
   normalizeUrl (normalizeUrl ''example.com/'') = normalizeUrl ''example.com/'' \<and>
   normalizeUrl ''example.com/'' = ''https://example.com''"
proof -
  note t = normalizeUrl_idempotent_when_clean [of "''example.com/''"]
  from t have e: "normalizeUrl ''example.com/'' = ''https://example.com''"
    by (rule conjunct2)
  have c: "\<not> endsWith (normalizeUrl ''example.com/'') ''/'' \<and>
      \<not> isWhiteSpace (last (normalizeUrl ''example.com/''))"
    unfolding e by (simp add: endsWith_def isWhiteSpace_def)
  with t have "normalizeUrl (normalizeUrl ''example.com/'') = normalizeUrl ''example.com/''"
    by blast
  with c e show ?thesis by blast
qed

text \<open>
  Claim C5 as stated fails: \<^verbatim>\<open>example.com//\<close> is normalised to
  \<^verbatim>\<open>https://example.com/\<close>, and that to \<^verbatim>\<open>https://example.com\<close>.
\<close>

theorem normalizeUrl_not_idempotent:
  "normalizeUrl (normalizeUrl ''example.com//'') \<noteq> normalizeUrl ''example.com//''"
  by (simp add: normalizeUrl_two_slashes)
     (simp add: normalizeUrl_def trim_def isWhiteSpace_def endsWith_def startsWith_def)

subsection \<open>Retry Executor\<close>

text \<open>
  Claim C8.  With \<open>maxRetries = 3\<close> and \<open>baseDelay = 2000\<close>, an operation that fails with
  rate-limit errors on its first two invocations and succeeds on the third is invoked
  three times, with a wait of 2000 ms after the first failure and of 4000 ms after the
  second, and \<^verbatim>\<open>withRetry\<close> returns the third result.  This is stated for any
  operation, by the states its three invocations go through, and for the call of the
  classification service, which counts its invocations.  The last part is the rule
  behind the two waits: after the \<open>k\<close>-th attempt fails recoverably and is not the last,
  the wait is \<open>baseDelay * 2 ^ (k - 1)\<close>.
\<close>

theorem withRetry_succeeds_on_third_attempt:
  assumes "isRateLimit e1" and "isRateLimit e2"
  shows
    "(fn w = (Inl e1, w1) \<and> fn (sleep 2000 w1) = (Inl e2, w2) \<and>
      fn (sleep 4000 w2) = (Inr v, w3)
        \<longrightarrow> withRetry fn 3 2000 w = (Inr (Some v), w3)) \<and>
     (createCompletion env (modelCalls w) p m = Inl e1 \<and>
      createCompletion env (modelCalls w + 1) p m = Inl e2 \<and>
      createCompletion env (modelCalls w + 2) p m = Inr c
        \<longrightarrow> withRetry (requestCompletion env p m) 3 2000 w =
              (Inr (Some c),
               w\<lparr>modelCalls := modelCalls w + 3, waits := waits w @ [2000, 4000]\<rparr>)) \<and>
     (1 \<le> k \<and> k < maxRetries \<and> fn w = (Inl e1, w1)
        \<longrightarrow> withRetry_from fn maxRetries baseDelay k w =
              withRetry_from fn maxRetries baseDelay (k + 1)
                (sleep (baseDelay * 2 ^ nat (k - 1)) w1))"
proof (intro conjI impI)
  assume "fn w = (Inl e1, w1) \<and> fn (sleep 2000 w1) = (Inl e2, w2) \<and>
      fn (sleep 4000 w2) = (Inr v, w3)"
  then have "fn w = (Inl e1, w1)" and "fn (sleep 2000 w1) = (Inl e2, w2)"
    and "fn (sleep 4000 w2) = (Inr v, w3)"
    by simp_all
  then show "withRetry fn 3 2000 w = (Inr (Some v), w3)"
    by (rule withRetry_third [OF assms])
next
  assume a: "createCompletion env (modelCalls w) p m = Inl e1 \<and>
      createCompletion env (modelCalls w + 1) p m = Inl e2 \<and>
      createCompletion env (modelCalls w + 2) p m = Inr c"
  let ?fn = "requestCompletion env p m"
  let ?w1 = "w\<lparr>modelCalls := modelCalls w + 1\<rparr>"
  let ?w2 = "w\<lparr>modelCalls := modelCalls w + 2, waits := waits w @ [2000]\<rparr>"
  let ?w3 = "w\<lparr>modelCalls := modelCalls w + 3, waits := waits w @ [2000, 4000]\<rparr>"
  have 1: "?fn w = (Inl e1, ?w1)"
    using a by (simp add: requestCompletion_def)
  have 2: "?fn (sleep 2000 ?w1) = (Inl e2, ?w2)"
    using a by (simp add: requestCompletion_def sleep_def)
  have 3: "?fn (sleep 4000 ?w2) = (Inr c, ?w3)"
    using a by (simp add: requestCompletion_def sleep_def)
  show "withRetry ?fn 3 2000 w = (Inr (Some c), ?w3)"
    by (rule withRetry_third [OF assms 1 2 3])
next
  assume "1 \<le> k \<and> k < maxRetries \<and> fn w = (Inl e1, w1)"
  then have k: "k < maxRetries" and f: "fn w = (Inl e1, w1)"
    by simp_all
  have r: "isRateLimit e1 \<or> isServerError e1"
    using assms(1) by (rule disjI1)
  show "withRetry_from fn maxRetries baseDelay k w =
      withRetry_from fn maxRetries baseDelay (k + 1) (sleep (baseDelay * 2 ^ nat (k - 1)) w1)"
    by (rule withRetry_from_backoff [of k maxRetries fn w e1 w1 baseDelay, OF k f r])
qed

theorem withRetry_flaky_service:
  "isRateLimit rateLimitError \<and>
   createCompletion flakyEnv 0 ''prompt'' ''message'' = Inl rateLimitError \<and>
   createCompletion flakyEnv 1 ''prompt'' ''message'' = Inl rateLimitError \<and>
   createCompletion flakyEnv 2 ''prompt'' ''message'' = Inr maybeCompletion \<and>
   withRetry (requestCompletion flakyEnv ''prompt'' ''message'') 3 2000 initialWorld =
     (Inr (Some maybeCompletion),
      \<lparr>pagesOpened = 0, modelCalls = 3, waits = [2000, 4000], dataset = []\<rparr>)"
proof -
  have calls:
    "createCompletion flakyEnv (modelCalls initialWorld) ''prompt'' ''message'' = Inl rateLimitError \<and>
     createCompletion flakyEnv (modelCalls initialWorld + 1) ''prompt'' ''message'' = Inl rateLimitError \<and>
     createCompletion flakyEnv (modelCalls initialWorld + 2) ''prompt'' ''message'' = Inr maybeCompletion"
    by (simp add: flakyEnv_def initialWorld_def)
  have "withRetry (requestCompletion flakyEnv ''prompt'' ''message'') 3 2000 initialWorld =
     (Inr (Some maybeCompletion),
      initialWorld\<lparr>modelCalls := modelCalls initialWorld + 3,
                    waits := waits initialWorld @ [2000, 4000]\<rparr>)"
    using withRetry_succeeds_on_third_attempt
            [OF rateLimitError_recoverable rateLimitError_recoverable,
             THEN conjunct2, THEN conjunct1, THEN mp, OF calls] .
  moreover have "createCompletion flakyEnv 0 ''prompt'' ''message'' = Inl rateLimitError"
    "createCompletion flakyEnv 1 ''prompt'' ''message'' = Inl rateLimitError"
    "createCompletion flakyEnv 2 ''prompt'' ''message'' = Inr maybeCompletion"
    by (simp_all add: flakyEnv_def)
  ultimately show ?thesis
    using rateLimitError_recoverable by (simp add: initialWorld_def)
qed

text \<open>
  Claim C9, as amended.  When \<open>maxRetries\<close> is at least 1, an operation whose failure is
  neither a rate-limit nor a server error is invoked once and its failure is raised
  again, with no wait: the state is the one the operation left.  When the attempt
  numbered \<open>maxRetries\<close> fails, with whatever error, that failure is raised again with no
  further wait.
\<close>

theorem withRetry_raises_again:
  assumes "1 \<le> maxRetries" and "fn w = (Inl e, w')"
  shows
    "(\<not> isRateLimit e \<and> \<not> isServerError e
        \<longrightarrow> withRetry fn maxRetries baseDelay w = (Inl e, w')) \<and>
     withRetry_from fn maxRetries baseDelay maxRetries w = (Inl e, w')"
proof
  show "\<not> isRateLimit e \<and> \<not> isServerError e
      \<longrightarrow> withRetry fn maxRetries baseDelay w = (Inl e, w')"
    unfolding withRetry_def
    using withRetry_from_rethrow [of 1 maxRetries fn w e w' baseDelay] assms by blast
  show "withRetry_from fn maxRetries baseDelay maxRetries w = (Inl e, w')"
    using withRetry_from_rethrow [of maxRetries maxRetries fn w e w' baseDelay] assms by blast
qed

theorem withRetry_unauthorized_once:
  "(1::int) \<le> 3 \<and>
   alwaysUnauthorized initialWorld =
     (Inl authError, \<lparr>pagesOpened = 0, modelCalls = 1, waits = [], dataset = []\<rparr>) \<and>
   \<not> isRateLimit authError \<and> \<not> isServerError authError \<and>
   withRetry alwaysUnauthorized 3 2000 initialWorld =
     (Inl authError, \<lparr>pagesOpened = 0, modelCalls = 1, waits = [], dataset = []\<rparr>)"
  using withRetry_raises_again
          [of 3 alwaysUnauthorized initialWorld authError
              "\<lparr>pagesOpened = 0, modelCalls = 1, waits = [], dataset = []\<rparr>" 2000]
        authError_not_recoverable
  by (simp add: alwaysUnauthorized_def initialWorld_def)

text \<open>
  Claim C9 as stated fails when no attempt is allowed: with \<open>maxRetries = 0\<close> the
  operation that always fails with a non-recoverable error is never invoked, and
  \<^verbatim>\<open>withRetry\<close> returns \<^verbatim>\<open>undefined\<close> instead of raising.
\<close>

theorem withRetry_zero_attempts_raises_nothing:
  "\<not> isRateLimit authError \<and> \<not> isServerError authError \<and>
   withRetry alwaysUnauthorized 0 2000 initialWorld = (Inr None, initialWorld) \<and>
   fst (withRetry alwaysUnauthorized 0 2000 initialWorld) \<noteq> Inl authError \<and>
   modelCalls (snd (withRetry alwaysUnauthorized 0 2000 initialWorld)) \<noteq> 1"
  by (simp add: withRetry_none authError_not_recoverable initialWorld_def)

text \<open>
  Claim C10.  With \<open>maxRetries\<close> below 1 the loop of \<^verbatim>\<open>withRetry\<close> is not entered: it
  returns \<^verbatim>\<open>undefined\<close> and leaves the state as it was, so the operation was not
  invoked.  The classifier, given content of at least 20 characters, then fails reading
  \<^verbatim>\<open>choices\<close> of \<^verbatim>\<open>undefined\<close> and returns a \<^verbatim>\<open>DISQUALIFY\<close> record with score 0 whose reason
  begins with \<^verbatim>\<open>Error: \<close>; the classification service was not called.
\<close>

theorem withRetry_without_attempts:
  assumes "maxRetries < 1"
  shows
    "withRetry fn maxRetries baseDelay w = (Inr None, w) \<and>
     (20 \<le> length scrapedContent
        \<longrightarrow> qualifyWebsite env url scrapedContent systemPrompt maxRetries w =
              (Inr \<lparr>cr_url = url, cr_verdict = JStr ''DISQUALIFY'', cr_score = Num 0,
                     cr_reason =
                       JStr (''Error: '' @ messageText (cannotRead ''undefined'' ''choices''))\<rparr>,
               w))"
proof (intro conjI impI)
  show "withRetry fn maxRetries baseDelay w = (Inr None, w)"
    using assms by (rule withRetry_none)
next
  assume "20 \<le> length scrapedContent"
  with assms show "qualifyWebsite env url scrapedContent systemPrompt maxRetries w =
      (Inr \<lparr>cr_url = url, cr_verdict = JStr ''DISQUALIFY'', cr_score = Num 0,
             cr_reason =
               JStr (''Error: '' @ messageText (cannotRead ''undefined'' ''choices''))\<rparr>,
       w)"
    by (rule qualifyWebsite_none)
qed

theorem qualifyWebsite_zero_retries:
  "(0::int) < 1 \<and> 20 \<le> length acmeTitle \<and>
   withRetry (requestCompletion maybeEnv ''prompt'' ''message'') 0 2000 initialWorld =
     (Inr None, initialWorld) \<and>
   qualifyWebsite maybeEnv ''example.com'' acmeTitle ''prompt'' 0 initialWorld =
     (Inr \<lparr>cr_url = ''example.com'', cr_verdict = JStr ''DISQUALIFY'', cr_score = Num 0,
            cr_reason =
              JStr (''Error: '' @ messageText (cannotRead ''undefined'' ''choices''))\<rparr>,
      initialWorld)"
proof -
  have z: "(0::int) < 1" by simp
  have l: "20 \<le> length acmeTitle" by (simp add: acmeTitle_def)
  note t = withRetry_without_attempts
             [OF z, of "requestCompletion maybeEnv ''prompt'' ''message''" 2000 initialWorld
                acmeTitle maybeEnv "''example.com''" "''prompt''"]
  from t have "withRetry (requestCompletion maybeEnv ''prompt'' ''message'') 0 2000 initialWorld =
     (Inr None, initialWorld)"
    by (rule conjunct1)
  moreover from t l have
    "qualifyWebsite maybeEnv ''example.com'' acmeTitle ''prompt'' 0 initialWorld =
     (Inr \<lparr>cr_url = ''example.com'', cr_verdict = JStr ''DISQUALIFY'', cr_score = Num 0,
            cr_reason =
              JStr (''Error: '' @ messageText (cannotRead ''undefined'' ''choices''))\<rparr>,
      initialWorld)"
    by simp
  ultimately show ?thesis
    using z l by simp
qed

subsection \<open>Classifier\<close>

text \<open>
  Claim C7.  \<^verbatim>\<open>qualifyWebsite\<close> never raises: for every URL, every content, every retry
  count and every behaviour of the classification service and of \<^verbatim>\<open>JSON.parse\<close>, it
  returns a record, and the record is for the URL it was given.  (It terminates because
  the retry loop does: \<open>withRetry_from\<close> is a total function.)
\<close>

theorem qualifyWebsite_never_raises:
  "\<exists>r w'. qualifyWebsite env url scrapedContent systemPrompt maxRetries w = (Inr r, w') \<and>
      cr_url r = url"
proof -
  obtain r w' where
    "qualifyWebsite env url scrapedContent systemPrompt maxRetries w = (Inr r, w')"
    "cr_url r = url"
    using qualifyWebsite_returns [of env url scrapedContent systemPrompt maxRetries w] by blast
  then show ?thesis by blast
qed




subsection \<open>Pipeline Orchestrator\<close>



text \<open>
  Claim C2, as amended.  In the summary of a run, \<open>total\<close> is the number of input URLs and
  of results, \<open>qualified\<close> and \<open>disqualified\<close> count the results whose verdict is exactly
  \<^verbatim>\<open>QUALIFY\<close> and exactly \<^verbatim>\<open>DISQUALIFY\<close>, and their sum is at most \<open>total\<close>; the sum equals
  \<open>total\<close> exactly when every result carries one of these two verdicts.  The verdict of
  the model is passed through unchecked, so this need not be the case.
\<close>

theorem summary_counts:
  assumes "main env dflt input w = (Inr summary, w')"
  shows
    "rs_qualified summary + rs_disqualified summary \<le> rs_total summary \<and>
     (rs_qualified summary + rs_disqualified summary = rs_total summary
        \<longleftrightarrow> list_all counted (rs_results summary)) \<and>
     (\<exists>inp urls. input = Some inp \<and> in_urls inp = Some urls \<and>
        rs_total summary = length urls) \<and>
     length (rs_results summary) = rs_total summary \<and>
     rs_qualified summary =
       length (filter (\<lambda>r. cr_verdict r = JStr ''QUALIFY'') (rs_results summary)) \<and>
     rs_disqualified summary =
       length (filter (\<lambda>r. cr_verdict r = JStr ''DISQUALIFY'') (rs_results summary))"
proof -
  obtain inp urls where m: "input = Some inp" "in_urls inp = Some urls"
    "summary = summarize urls (rs_results summary)"
    "length (rs_results summary) = length urls"
    using main_summary [OF assms] by blast
  let ?rs = "rs_results summary"
  have t: "rs_total summary = length urls"
    and q: "rs_qualified summary = length (filter (\<lambda>r. cr_verdict r = JStr ''QUALIFY'') ?rs)"
    and d: "rs_disqualified summary =
              length (filter (\<lambda>r. cr_verdict r = JStr ''DISQUALIFY'') ?rs)"
    by (subst m(3), simp add: summarize_def)+
  from m(1,2) t have e: "\<exists>inp urls. input = Some inp \<and> in_urls inp = Some urls \<and>
        rs_total summary = length urls"
    by blast
  from count_two_verdicts [of ?rs] q d t m(4) e show ?thesis
    by simp
qed

theorem summary_counts_timeout_run:
  "main timeoutEnv ''prompt'' (Some (sampleInput [''badsite.invalid''])) initialWorld =
     (Inr \<lparr>rs_total = 1, rs_qualified = 0, rs_disqualified = 1,
           rs_results = [timeoutRecord ''badsite.invalid'']\<rparr>,
      \<lparr>pagesOpened = 1, modelCalls = 0, waits = [],
       dataset = [timeoutRecord ''badsite.invalid'']\<rparr>) \<and>
   list_all counted [timeoutRecord ''badsite.invalid'']"
proof -
  note t = summary_counts [OF run_timeout [of "''prompt''"]]
  from t have "list_all counted [timeoutRecord ''badsite.invalid'']"
    by simp
  with run_timeout [of "''prompt''"] show ?thesis by simp
qed

text \<open>
  Claim C2 as stated fails: when the model answers with the verdict \<^verbatim>\<open>MAYBE\<close>, the summary
  of a run over one URL has \<open>total = 1\<close>, \<open>qualified = 0\<close> and \<open>disqualified = 0\<close>.
\<close>

theorem summary_counts_miss_other_verdicts:
  "main maybeEnv ''prompt'' (Some (sampleInput [''example.com''])) initialWorld =
     (Inr \<lparr>rs_total = 1, rs_qualified = 0, rs_disqualified = 0,
           rs_results = [maybeRecord ''example.com'']\<rparr>,
      \<lparr>pagesOpened = 1, modelCalls = 1, waits = [],
       dataset = [maybeRecord ''example.com'']\<rparr>) \<and>
   rs_qualified \<lparr>rs_total = 1, rs_qualified = 0, rs_disqualified = 0,
                 rs_results = [maybeRecord ''example.com'']\<rparr> +
   rs_disqualified \<lparr>rs_total = 1, rs_qualified = 0, rs_disqualified = 0,
                    rs_results = [maybeRecord ''example.com'']\<rparr> \<noteq>
   rs_total \<lparr>rs_total = 1, rs_qualified = 0, rs_disqualified = 0,
             rs_results = [maybeRecord ''example.com'']\<rparr>"
  by (simp add: run_maybe)

text \<open>
  Claim C3, as amended.  For the input list \<^verbatim>\<open>["badsite.invalid"]\<close>, when loading the
  page (asked for as \<^verbatim>\<open>https://badsite.invalid\<close>) fails with an error, the summary has
  \<open>total = 1\<close>, \<open>qualified = 0\<close>, \<open>disqualified = 1\<close>, and its single result, which is also
  the single record stored, has the URL as given in the input, \<^verbatim>\<open>badsite.invalid\<close>, the
  verdict \<^verbatim>\<open>DISQUALIFY\<close>, the score 0 and a reason that ends with the text of the error.
\<close>

theorem run_badsite_timeout:
  assumes "browse env (pagesOpened w) ''https://badsite.invalid'' = PageThrows e"
    and "in_urls inp = Some [''badsite.invalid'']"
    and "in_openrouterApiKey inp = Some key" and "key \<noteq> []"
  shows
    "main env dflt (Some inp) w =
       (Inr \<lparr>rs_total = 1, rs_qualified = 0, rs_disqualified = 1,
             rs_results =
               [\<lparr>cr_url = ''badsite.invalid'', cr_verdict = JStr ''DISQUALIFY'', cr_score = Num 0,
                 cr_reason =
                   JStr (''Website inaccessible or no product description found. Error: Scraping failed: '' @
                         messageText e)\<rparr>]\<rparr>,
        w\<lparr>pagesOpened := Suc (pagesOpened w),
          dataset := dataset w @
               [\<lparr>cr_url = ''badsite.invalid'', cr_verdict = JStr ''DISQUALIFY'', cr_score = Num 0,
                 cr_reason =
                   JStr (''Website inaccessible or no product description found. Error: Scraping failed: '' @
                         messageText e)\<rparr>]\<rparr>)"
proof -
  have n: "normalizeUrl ''badsite.invalid'' = ''https://badsite.invalid''"
    by (simp add: normalizeUrl_def trim_def isWhiteSpace_def endsWith_def startsWith_def)
  have s: "scrapeWebsite env ''badsite.invalid'' w =
     (Inr \<lparr>sr_url = ''badsite.invalid'', sr_content = [], sr_title = [], sr_success = False,
           sr_error = Some (''Scraping failed: '' @ messageText e)\<rparr>,
      w\<lparr>pagesOpened := Suc (pagesOpened w)\<rparr>)"
    using assms(1) by (intro scrapeWebsite_throws) (simp add: n)
  have v: "[''badsite.invalid''] \<noteq> []" by simp
  show ?thesis
    unfolding main_validated [OF assms(2) v assms(3,4)]
    by (simp add: s Let_def pushData_def summarize_def)
qed

theorem run_badsite_timeout_sample:
  "browse timeoutEnv (pagesOpened initialWorld) ''https://badsite.invalid'' =
     PageThrows timeoutError \<and>
   main timeoutEnv ''prompt'' (Some (sampleInput [''badsite.invalid''])) initialWorld =
       (Inr \<lparr>rs_total = 1, rs_qualified = 0, rs_disqualified = 1,
             rs_results =
               [\<lparr>cr_url = ''badsite.invalid'', cr_verdict = JStr ''DISQUALIFY'', cr_score = Num 0,
                 cr_reason =
                   JStr (''Website inaccessible or no product description found. Error: Scraping failed: '' @
                         messageText timeoutError)\<rparr>]\<rparr>,
        \<lparr>pagesOpened = 1, modelCalls = 0, waits = [],
          dataset =
               [\<lparr>cr_url = ''badsite.invalid'', cr_verdict = JStr ''DISQUALIFY'', cr_score = Num 0,
                 cr_reason =
                   JStr (''Website inaccessible or no product description found. Error: Scraping failed: '' @
                         messageText timeoutError)\<rparr>]\<rparr>)"
proof -
  have b: "browse timeoutEnv (pagesOpened initialWorld) ''https://badsite.invalid'' =
     PageThrows timeoutError"
    by (simp add: timeoutEnv_def)
  have u: "in_urls (sampleInput [''badsite.invalid'']) = Some [''badsite.invalid'']"
    and k: "in_openrouterApiKey (sampleInput [''badsite.invalid'']) = Some ''sk-or-key''"
    and ne: "''sk-or-key'' \<noteq> []"
    by (simp_all add: sampleInput_def)
  from run_badsite_timeout [OF b u k ne, of "''prompt''"] b show ?thesis
    by (simp add: initialWorld_def)
qed

text \<open>
  Claim C3 as stated fails in the URL of the result: \<^verbatim>\<open>main\<close> puts the URL of the input
  list into the record, not the normalised one, so the result of the scenario has the
  URL \<^verbatim>\<open>badsite.invalid\<close> and not \<^verbatim>\<open>https://badsite.invalid\<close>.
\<close>

theorem run_badsite_keeps_input_url:
  "main timeoutEnv ''prompt'' (Some (sampleInput [''badsite.invalid''])) initialWorld =
     (Inr \<lparr>rs_total = 1, rs_qualified = 0, rs_disqualified = 1,
           rs_results = [timeoutRecord ''badsite.invalid'']\<rparr>,
      \<lparr>pagesOpened = 1, modelCalls = 0, waits = [],
       dataset = [timeoutRecord ''badsite.invalid'']\<rparr>) \<and>
   cr_url (timeoutRecord ''badsite.invalid'') = ''badsite.invalid'' \<and>
   cr_url (timeoutRecord ''badsite.invalid'') \<noteq> ''https://badsite.invalid''"
  by (simp add: run_timeout timeoutRecord_def)

end
